theory Spec2Isabelle
  imports Complex_Main
begin

section \<open>Numbers, dictionaries and failures\<close>

text \<open>
  The program is Python. Its integers are unbounded and are modelled by \<open>int\<close>. Its
  floats are modelled by exact reals: a decimal literal such as \<open>0.27\<close> denotes the
  rational 27/100 and \<open>/\<close> is exact division. The rounding of IEEE doubles is not
  part of the model, and a float result beyond their range, which Python returns as
  \<open>inf\<close> without an exception, stands as its exact value. Every equation proved below
  is therefore an equation of exact arithmetic.

  The exceptions the accounting code can meet are written into the model: a missing
  dictionary key, a division by zero, and the overflow Python raises when an integer is
  too large to become a float. A function that can raise returns \<open>py_error + 'a\<close>,
  with \<open>Inl\<close> for the exception.
\<close>

datatype py_error = KeyError | ZeroDivisionError | OverflowError

definition getitem :: "('k \<rightharpoonup> 'v) \<Rightarrow> 'k \<Rightarrow> py_error + 'v" where
  \<comment> \<open>\<open>d[k]\<close> on a dict\<close>
  "getitem d k = (case d k of None \<Rightarrow> Inl KeyError | Some v \<Rightarrow> Inr v)"

definition truediv :: "real \<Rightarrow> real \<Rightarrow> py_error + real" where
  \<comment> \<open>\<open>a / b\<close> on two floats: only a zero divisor raises\<close>
  "truediv a b = (if b = 0 then Inl ZeroDivisionError else Inr (a / b))"

definition and_then :: "py_error + 'a \<Rightarrow> ('a \<Rightarrow> py_error + 'b) \<Rightarrow> py_error + 'b" where
  \<comment> \<open>sequencing: an exception in the first step skips the rest\<close>
  "and_then r f = (case r of Inl e \<Rightarrow> Inl e | Inr v \<Rightarrow> f v)"

definition int_trunc :: "real \<Rightarrow> int" where
  \<comment> \<open>\<open>int(x)\<close> on a float: truncation towards zero\<close>
  "int_trunc x = (if 0 \<le> x then \<lfloor>x\<rfloor> else \<lceil>x\<rceil>)"

subsection \<open>Integers and floats side by side\<close>

text \<open>
  Python chooses the arithmetic by the kind of the operands. Between two integers \<open>-\<close>
  is exact and \<open>/\<close> is true division, which raises \<open>OverflowError\<close> when the
  quotient, rounded to the nearest double, is beyond the largest one. When one operand is
  a float the other is converted to float first, the left operand before the right, and
  the conversion of an integer raises \<open>OverflowError\<close> under the same condition. The
  largest double is \<open>2^1024 - 2^971\<close>; rounding to nearest, ties to even, takes every
  magnitude from \<open>2^1024 - 2^970\<close> on beyond it. Comparing a number with \<open>0\<close> is
  exact and never raises.
\<close>

datatype py_num = PyInt int | PyFloat real

definition float_limit :: real where
  "float_limit = 2 ^ 1024 - 2 ^ 970"

fun num_value :: "py_num \<Rightarrow> real" where
  "num_value (PyInt n) = of_int n"
| "num_value (PyFloat x) = x"

fun as_float :: "py_num \<Rightarrow> py_error + real" where
  "as_float (PyInt n) =
     (if float_limit \<le> \<bar>of_int n\<bar> then Inl OverflowError else Inr (of_int n))"
| "as_float (PyFloat x) = Inr x"

fun num_sub :: "py_num \<Rightarrow> py_num \<Rightarrow> py_error + py_num" where
  "num_sub (PyInt a) (PyInt b) = Inr (PyInt (a - b))"
| "num_sub a b =
     and_then (as_float a) (\<lambda>x. and_then (as_float b) (\<lambda>y. Inr (PyFloat (x - y))))"

fun num_truediv :: "py_num \<Rightarrow> py_num \<Rightarrow> py_error + real" where
  "num_truediv (PyInt a) (PyInt b) =
     (if b = 0 then Inl ZeroDivisionError
      else if float_limit \<le> \<bar>of_int a / of_int b\<bar> then Inl OverflowError
      else Inr (of_int a / of_int b))"
| "num_truediv a b =
     and_then (as_float a) (\<lambda>x. and_then (as_float b) (\<lambda>y. truediv x y))"

section \<open>cost_calculator.py\<close>

subsection \<open>The pricing table\<close>

text \<open>
  \<open>CostCalculator.PRICING\<close> is a dict of dicts of dicts: provider, then model, then the
  three rate names. Rates are dollars per million tokens.
\<close>

definition PRICING :: "string \<rightharpoonup> (string \<rightharpoonup> (string \<rightharpoonup> real))" where
  "PRICING =
     [''groq'' \<mapsto>
        [''llama-3.1-70b-versatile'' \<mapsto>
           [''input'' \<mapsto> 0.27, ''output'' \<mapsto> 0.27, ''cached_input'' \<mapsto> 0.027],
         ''llama-3.1-8b-instant'' \<mapsto>
           [''input'' \<mapsto> 0.05, ''output'' \<mapsto> 0.05, ''cached_input'' \<mapsto> 0.005],
         ''mixtral-8x7b-32768'' \<mapsto>
           [''input'' \<mapsto> 0.24, ''output'' \<mapsto> 0.24, ''cached_input'' \<mapsto> 0.024],
         ''gemma-7b-it'' \<mapsto>
           [''input'' \<mapsto> 0.07, ''output'' \<mapsto> 0.07, ''cached_input'' \<mapsto> 0.007],
         ''llama-3.3-70b-versatile'' \<mapsto>
           [''input'' \<mapsto> 0.27, ''output'' \<mapsto> 0.27, ''cached_input'' \<mapsto> 0.027]]]"

subsection \<open>calculate_cost\<close>

text \<open>
  The token counts are annotated \<open>int\<close> in the source, but \<open>project_monthly_cost\<close>
  passes floats; the model takes reals, and an integer count is passed as \<open>of_int n\<close>.
  What the kind of the arguments adds, the overflow of an integer division, is the subject
  of \<open>calculate_cost_py\<close> below.
  The \<open>provider\<close> argument is received and never read: the key is the constant
  \<open>"groq"\<close>.
\<close>

definition calculate_cost :: "real \<Rightarrow> real \<Rightarrow> real \<Rightarrow> string \<Rightarrow> string \<Rightarrow> py_error + real" where
  "calculate_cost input_tokens output_tokens cached_tokens provider model =
     (let provider_key = ''groq'' in
      and_then (getitem PRICING provider_key) (\<lambda>models.
      let model = (if models model = None then ''llama-3.1-70b-versatile'' else model) in
      and_then (getitem PRICING provider_key) (\<lambda>models.
      and_then (getitem models model) (\<lambda>pricing.
      let non_cached_input = input_tokens - cached_tokens in
      and_then (truediv non_cached_input 1000000) (\<lambda>m_in.
      and_then (getitem pricing ''input'') (\<lambda>r_in.
      let input_cost = m_in * r_in in
      and_then (truediv cached_tokens 1000000) (\<lambda>m_cached.
      and_then (getitem pricing ''cached_input'') (\<lambda>r_cached.
      let cached_cost = m_cached * r_cached in
      and_then (truediv output_tokens 1000000) (\<lambda>m_out.
      and_then (getitem pricing ''output'') (\<lambda>r_out.
      let output_cost = m_out * r_out in
      Inr (input_cost + cached_cost + output_cost)))))))))))"

subsection \<open>calculate_savings\<close>

record savings =
  absolute :: real
  percentage :: real


subsection \<open>project_monthly_cost\<close>

record projection =
  monthly_cost :: real
  annual_cost :: real
  total_tokens :: real

definition project_monthly_cost ::
  "int \<Rightarrow> int \<Rightarrow> int \<Rightarrow> string \<Rightarrow> string \<Rightarrow> bool \<Rightarrow> real \<Rightarrow> py_error + projection" where
  "project_monthly_cost daily_users tokens_per_user days_per_month provider model
       use_caching cache_hit_rate =
     (let total_tokens = of_int (daily_users * tokens_per_user * days_per_month);
          total_tokens =
            (if use_caching
             then (let first_request_tokens = of_int tokens_per_user * 0.1;
                       cached_tokens = of_int tokens_per_user * 0.9 * cache_hit_rate;
                       effective_tokens_per_user = first_request_tokens + cached_tokens * 0.1
                   in of_int daily_users * effective_tokens_per_user * of_int days_per_month)
             else total_tokens)
      in and_then
           (calculate_cost total_tokens (total_tokens * 0.1)
              (if use_caching then total_tokens * 0.9 else 0) provider model)
           (\<lambda>cost.
         Inr \<lparr>monthly_cost = cost, annual_cost = cost * 12, total_tokens = total_tokens\<rparr>))"

subsection \<open>The accountant on integers and floats\<close>

text \<open>
  The two functions above take their numbers as floats. The source does not fix the kind:
  the token counts are annotated \<open>int\<close>, the costs \<open>float\<close>, and a caller may pass
  either. The same two bodies follow with the kind of each argument kept, so that the
  subtraction and the divisions are the ones Python performs on that kind. The rates are
  floats, so each product has a float on the left and raises nothing; the percentage of
  the \<open>else\<close> branch is the integer \<open>0\<close>.
\<close>

definition calculate_cost_py ::
  "py_num \<Rightarrow> py_num \<Rightarrow> py_num \<Rightarrow> string \<Rightarrow> string \<Rightarrow> py_error + real" where
  "calculate_cost_py input_tokens output_tokens cached_tokens provider model =
     (let provider_key = ''groq'' in
      and_then (getitem PRICING provider_key) (\<lambda>models.
      let model = (if models model = None then ''llama-3.1-70b-versatile'' else model) in
      and_then (getitem PRICING provider_key) (\<lambda>models.
      and_then (getitem models model) (\<lambda>pricing.
      and_then (num_sub input_tokens cached_tokens) (\<lambda>non_cached_input.
      and_then (num_truediv non_cached_input (PyInt 1000000)) (\<lambda>m_in.
      and_then (getitem pricing ''input'') (\<lambda>r_in.
      let input_cost = m_in * r_in in
      and_then (num_truediv cached_tokens (PyInt 1000000)) (\<lambda>m_cached.
      and_then (getitem pricing ''cached_input'') (\<lambda>r_cached.
      let cached_cost = m_cached * r_cached in
      and_then (num_truediv output_tokens (PyInt 1000000)) (\<lambda>m_out.
      and_then (getitem pricing ''output'') (\<lambda>r_out.
      let output_cost = m_out * r_out in
      Inr (input_cost + cached_cost + output_cost))))))))))))"

record savings_py =
  absolute_py :: py_num
  percentage_py :: py_num

definition calculate_savings_py :: "py_num \<Rightarrow> py_num \<Rightarrow> py_error + savings_py" where
  "calculate_savings_py original_cost optimized_cost =
     and_then (num_sub original_cost optimized_cost) (\<lambda>savings.
     and_then
       (if num_value original_cost > 0
        then and_then (num_truediv savings original_cost) (\<lambda>q. Inr (PyFloat (q * 100)))
        else Inr (PyInt 0))
       (\<lambda>savings_percentage.
     Inr \<lparr>absolute_py = savings, percentage_py = savings_percentage\<rparr>))"

section \<open>utils.py\<close>

definition estimate_tokens :: "string \<Rightarrow> int" where
  "estimate_tokens text = int (length text) div 4"

record cache_savings =
  total_savings :: real
  savings_percentage :: real
  cost_without_cache :: real
  cost_with_cache :: real


section \<open>llm_client.py\<close>

text \<open>
  The call to the provider is the one effect of the client. Its outcome is an input of the
  model: \<open>groq_client\<close> is \<open>None\<close> when no client was set up (no API key), and
  otherwise holds what the call made through it does, either the usage figures and the
  text of the completion, or an exception raised inside the \<open>try\<close> block.
\<close>

datatype api_call = Returned (prompt_tokens: int) (completion_tokens: int) (content: string) | Raised

record token_counts =
  input_n :: int
  output_n :: int
  cached_n :: int

record cache_report =
  hit :: bool
  cached_tokens_n :: int

record analysis =
  response :: string
  tokens :: token_counts
  cost :: real
  cache_info :: cache_report

definition base_prompt :: string where
  "base_prompt =
     ''You are a document analysis expert.\<newline>'' @
     ''Analyze documents carefully and provide accurate answers.\<newline>'' @
     ''Always cite specific sections when answering.\<newline>'' @
     ''Be concise but thorough in your analysis.\<newline>'' @
     ''\<newline>'' @
     ''Your response format should be:\<newline>'' @
     ''- Direct answer\<newline>'' @
     ''- Supporting evidence\<newline>'' @
     ''- Relevant quotes\<newline>'' @
     ''- Confidence level\<newline>'' @
     ''\<newline>'' @
     ''Additional guidelines:\<newline>'' @
     ''- Use precise language\<newline>'' @
     ''- Avoid speculation\<newline>'' @
     ''- Reference page numbers when available\<newline>'' @
     ''- Highlight any contradictions\<newline>'' @
     ''- Focus on factual information\<newline>'' @
     ''- Provide actionable insights\<newline>'' @
     ''- Maintain objectivity\<newline>'' @
     ''- Consider multiple perspectives\<newline>'' @
     ''- Verify claims when possible\<newline>'' @
     ''- Structure responses clearly\<newline>''"

definition get_system_prompt :: string where
  "get_system_prompt = concat (replicate 15 base_prompt)"

definition simulate_response :: "string \<Rightarrow> string \<Rightarrow> bool \<Rightarrow> analysis" where
  "simulate_response document question is_first_request =
     (let doc_tokens = int (length document) div 4;
          question_tokens = int (length question) div 4;
          system_tokens = 500;
          input_tokens = system_tokens + doc_tokens + question_tokens;
          output_tokens = 200;
          cached_tokens =
            (if \<not> is_first_request
             then int_trunc (of_int (system_tokens + doc_tokens) * 0.9) else 0);
          input_cost = of_int (input_tokens - cached_tokens) / 1000000 * 0.27;
          cached_cost = of_int cached_tokens / 1000000 * 0.027;
          output_cost = of_int output_tokens / 1000000 * 0.27;
          total_cost = input_cost + cached_cost + output_cost;
          response =
            ''Based on the document analysis, here's the answer to your question:\<newline>'' @
            ''\<newline>'' @
            ''**Question:** '' @ question @ ''\<newline>'' @
            ''\<newline>'' @
            ''**Answer:** The document discusses various aspects of prompt optimization. Key findings include significant cost reductions through proper caching strategies and improved performance when questions are positioned at the end of prompts.\<newline>'' @
            ''\<newline>'' @
            ''**Key Points:**\<newline>'' @
            ''- Cost savings of 70-90% are achievable with prompt caching\<newline>'' @
            ''- Response quality improves with optimal prompt structure\<newline>'' @
            ''- Latency improvements of 50-80% are possible\<newline>'' @
            ''\<newline>'' @
            ''**Supporting Evidence:** The document emphasizes the importance of placing static content before dynamic content to enable effective caching.\<newline>'' @
            ''\<newline>'' @
            ''This is a simulated response. To get real responses, please configure your GROQ_API_KEY.''
      in \<lparr>response = response,
          tokens = \<lparr>input_n = input_tokens, output_n = output_tokens, cached_n = cached_tokens\<rparr>,
          cost = total_cost,
          cache_info = \<lparr>hit = \<not> is_first_request, cached_tokens_n = cached_tokens\<rparr>\<rparr>)"

definition analyze_groq_caching ::
  "api_call option \<Rightarrow> string \<Rightarrow> string \<Rightarrow> string \<Rightarrow> string \<Rightarrow> bool \<Rightarrow> bool \<Rightarrow> analysis" where
  "analyze_groq_caching groq_client document question system_prompt model enable_caching
       is_first_request =
     (case groq_client of
        None \<Rightarrow> simulate_response document question is_first_request
      | Some Raised \<Rightarrow> simulate_response document question is_first_request
      | Some (Returned input_tokens output_tokens text) \<Rightarrow>
          (let cached_tokens =
                 (if \<not> is_first_request \<and> enable_caching
                  then (let static_tokens = input_tokens - int (length question) div 4
                        in int_trunc (of_int static_tokens * 0.9))
                  else 0);
               input_cost = of_int (input_tokens - cached_tokens) / 1000000 * 0.27;
               cached_cost = of_int cached_tokens / 1000000 * 0.027;
               output_cost = of_int output_tokens / 1000000 * 0.27;
               total_cost = input_cost + cached_cost + output_cost
           in \<lparr>response = text,
               tokens = \<lparr>input_n = input_tokens, output_n = output_tokens, cached_n = cached_tokens\<rparr>,
               cost = total_cost,
               cache_info = \<lparr>hit = (\<not> is_first_request \<and> enable_caching),
                             cached_tokens_n = cached_tokens\<rparr>\<rparr>))"

definition analyze_with_caching ::
  "api_call option \<Rightarrow> string \<Rightarrow> string \<Rightarrow> string \<Rightarrow> string \<Rightarrow> bool \<Rightarrow> bool \<Rightarrow> analysis" where
  "analyze_with_caching groq_client document question provider model enable_caching
       is_first_request =
     (let system_prompt = get_system_prompt
      in analyze_groq_caching groq_client document question system_prompt model enable_caching
           is_first_request)"

section \<open>app.py: the cost projection of the fourth tab\<close>

text \<open>
  The handler of the button "Calculate Projections". The four usage figures come from
  integer number inputs with minimum 1 (100 for the document size), the three prices from
  float number inputs with minimum 0.0; the output price is entered and not used.
\<close>

record projections =
  cost_without_opt :: real
  cost_with_opt :: real
  monthly_savings :: real
  annual_savings :: real
  savings_pct :: real

definition calculate_projections ::
  "int \<Rightarrow> int \<Rightarrow> int \<Rightarrow> int \<Rightarrow> real \<Rightarrow> real \<Rightarrow> real \<Rightarrow> py_error + projections" where
  "calculate_projections daily_users avg_document_size avg_questions_per_user days_per_month
       input_price output_price cached_price =
     (let total_sessions = daily_users * days_per_month;
          tokens_per_session = avg_document_size * avg_questions_per_user;
          total_tokens = total_sessions * tokens_per_session
      in and_then (truediv (of_int total_tokens) 1000000) (\<lambda>millions.
      let cost_without_opt = millions * input_price;
          first_request_tokens = avg_document_size;
          cached_request_tokens = of_int avg_document_size * 0.1;
          tokens_per_session_optimized =
            of_int first_request_tokens
              + cached_request_tokens * of_int (avg_questions_per_user - 1);
          total_tokens_optimized = of_int total_sessions * tokens_per_session_optimized
      in and_then (truediv total_tokens_optimized 1000000) (\<lambda>millions_optimized.
      let cost_with_opt = millions_optimized * cached_price;
          monthly_savings = cost_without_opt - cost_with_opt;
          annual_savings = monthly_savings * 12
      in and_then
           (if cost_without_opt > 0
            then and_then (truediv monthly_savings cost_without_opt) (\<lambda>q. Inr (q * 100))
            else Inr 0)
           (\<lambda>savings_percentage.
         Inr \<lparr>cost_without_opt = cost_without_opt, cost_with_opt = cost_with_opt,
              monthly_savings = monthly_savings, annual_savings = annual_savings,
              savings_pct = savings_percentage\<rparr>))))"

section \<open>The pricing lookup\<close>

text \<open>
  Every model of the table carries the three rates, none of them negative, and its cached
  rate is at most its input rate. The default model is a key of the table, so the lookup
  that follows the fallback always finds an entry.
\<close>

lemma groq_entry_case:
  "PRICING ''groq'' = Some models \<Longrightarrow> models m = Some pricing \<Longrightarrow>
     (case (pricing ''input'', pricing ''output'', pricing ''cached_input'') of
        (Some a, Some b, Some c) \<Rightarrow> 0 \<le> c \<and> c \<le> a \<and> 0 \<le> b
      | _ \<Rightarrow> False)"
  by (auto simp: PRICING_def split: if_splits)

lemma groq_models:
  assumes "PRICING ''groq'' = Some models" and "models m = Some pricing"
  obtains a b c where "pricing ''input'' = Some a" and "pricing ''output'' = Some b"
    and "pricing ''cached_input'' = Some c" and "0 \<le> c" and "c \<le> a" and "0 \<le> b"
  using groq_entry_case [OF assms] by (auto split: option.splits)

lemma groq_present:
  obtains models where "PRICING ''groq'' = Some models"
    and "models ''llama-3.1-70b-versatile'' \<noteq> None"
  by (simp add: PRICING_def)

lemma only_groq: "PRICING provider = Some models \<Longrightarrow> provider = ''groq''"
  by (auto simp: PRICING_def split: if_splits)

lemma calculate_cost_known:
  assumes "PRICING ''groq'' = Some models"
    and "models (if models model = None then ''llama-3.1-70b-versatile'' else model) = Some pricing"
    and "pricing ''input'' = Some a" and "pricing ''output'' = Some b"
    and "pricing ''cached_input'' = Some c"
  shows "calculate_cost i ot ct provider model =
           Inr ((i - ct) / 1000000 * a + ct / 1000000 * c + ot / 1000000 * b)"
  using assms
  by (simp add: calculate_cost_def getitem_def truediv_def and_then_def Let_def)

lemma calculate_cost_resolved:
  obtains models pricing a b c where "PRICING ''groq'' = Some models"
    and "models (if models model = None then ''llama-3.1-70b-versatile'' else model) = Some pricing"
    and "pricing ''input'' = Some a" and "pricing ''output'' = Some b"
    and "pricing ''cached_input'' = Some c" and "0 \<le> c" and "c \<le> a" and "0 \<le> b"
proof -
  obtain models where m: "PRICING ''groq'' = Some models"
    and d: "models ''llama-3.1-70b-versatile'' \<noteq> None"
    by (rule groq_present)
  let ?m = "if models model = None then ''llama-3.1-70b-versatile'' else model"
  from d have "models ?m \<noteq> None" by simp
  then obtain pricing where p: "models ?m = Some pricing" by blast
  from groq_models [OF m p] that [OF m p] show thesis by blast
qed

section \<open>The accountant\<close>





text \<open>
  Claim C10. The cost does not depend on the provider argument: two calls that differ in
  the provider only return the same result, whether or not the strings name a provider of
  the table.
\<close>

theorem provider_is_ignored:
  "calculate_cost input_tokens output_tokens cached_tokens p1 model =
   calculate_cost input_tokens output_tokens cached_tokens p2 model"
  by (simp add: calculate_cost_def)

theorem provider_is_ignored_witness:
  "calculate_cost 5000 200 4498 ''openai'' ''gemma-7b-it'' =
   calculate_cost 5000 200 4498 ''groq'' ''gemma-7b-it''"
  using provider_is_ignored [of 5000 200 4498 "''openai''" "''gemma-7b-it''" "''groq''"] .


subsection \<open>Integers, floats and the double range\<close>

text \<open>
  On floats the two functions that keep the kind of their arguments are the two functions
  on floats, and on integers within the double range \<open>calculate_cost_py\<close> returns what
  \<open>calculate_cost\<close> returns for the same counts.
\<close>

lemma million_fits: "\<not> float_limit \<le> 1000000"
  by (simp add: float_limit_def)

lemma as_float_raises: "as_float a = Inl e \<Longrightarrow> e = OverflowError"
  by (cases a) (auto split: if_splits)

lemma num_sub_raises: "num_sub a b = Inl e \<Longrightarrow> e = OverflowError"
  by (cases a; cases b) (auto simp: and_then_def split: if_splits)

lemma num_truediv_raises:
  "num_value b \<noteq> 0 \<Longrightarrow> num_truediv a b = Inl e \<Longrightarrow> e = OverflowError"
  by (cases a; cases b) (auto simp: and_then_def truediv_def split: if_splits)

lemma and_then_raises:
  assumes "and_then r f = Inl e"
    and "\<And>e'. r = Inl e' \<Longrightarrow> e' = OverflowError"
    and "\<And>v e'. r = Inr v \<Longrightarrow> f v = Inl e' \<Longrightarrow> e' = OverflowError"
  shows "e = OverflowError"
  using assms by (cases r) (auto simp: and_then_def)

lemma calculate_cost_py_known:
  assumes "PRICING ''groq'' = Some models"
    and "models (if models model = None then ''llama-3.1-70b-versatile'' else model) = Some pricing"
    and "pricing ''input'' = Some a" and "pricing ''output'' = Some b"
    and "pricing ''cached_input'' = Some c"
  shows "calculate_cost_py i ot ct provider model =
           and_then (num_sub i ct) (\<lambda>d.
           and_then (num_truediv d (PyInt 1000000)) (\<lambda>x.
           and_then (num_truediv ct (PyInt 1000000)) (\<lambda>y.
           and_then (num_truediv ot (PyInt 1000000)) (\<lambda>z.
           Inr (x * a + y * c + z * b)))))"
  using assms
  by (simp add: calculate_cost_py_def getitem_def Let_def)
    (simp add: and_then_def split: sum.splits)

lemma calculate_cost_py_raises:
  assumes "calculate_cost_py i ot ct provider model = Inl e"
  shows "e = OverflowError"
proof -
  obtain models pricing a b c where r: "PRICING ''groq'' = Some models"
    "models (if models model = None then ''llama-3.1-70b-versatile'' else model) = Some pricing"
    "pricing ''input'' = Some a" "pricing ''output'' = Some b"
    "pricing ''cached_input'' = Some c"
    by (rule calculate_cost_resolved)
  have m: "num_value (PyInt 1000000) \<noteq> 0" by simp
  from assms show ?thesis
    unfolding calculate_cost_py_known [OF r]
    by (auto elim!: and_then_raises dest: num_sub_raises num_truediv_raises [OF m])
qed

lemma calculate_savings_py_raises:
  assumes "calculate_savings_py original_cost optimized_cost = Inl e"
  shows "e = OverflowError"
proof (cases "num_sub original_cost optimized_cost")
  case (Inl e')
  with assms have "e = e'" by (simp add: calculate_savings_py_def and_then_def)
  with Inl num_sub_raises show ?thesis by blast
next
  case (Inr v)
  show ?thesis
  proof (cases "num_value original_cost > 0")
    case True
    then have nz: "num_value original_cost \<noteq> 0" by simp
    from assms Inr True have "num_truediv v original_cost = Inl e"
      by (cases "num_truediv v original_cost")
        (simp_all add: calculate_savings_py_def and_then_def)
    with num_truediv_raises [OF nz] show ?thesis by blast
  next
    case False
    with assms Inr show ?thesis by (simp add: calculate_savings_py_def and_then_def)
  qed
qed

lemma calculate_cost_py_float:
  "calculate_cost_py (PyFloat i) (PyFloat ot) (PyFloat ct) provider model =
     calculate_cost i ot ct provider model"
proof -
  obtain models pricing a b c where r: "PRICING ''groq'' = Some models"
    "models (if models model = None then ''llama-3.1-70b-versatile'' else model) = Some pricing"
    "pricing ''input'' = Some a" "pricing ''output'' = Some b"
    "pricing ''cached_input'' = Some c"
    by (rule calculate_cost_resolved)
  show ?thesis
    unfolding calculate_cost_py_known [OF r] calculate_cost_known [OF r]
    by (simp add: and_then_def truediv_def million_fits)
qed

lemma calculate_savings_py_float:
  "calculate_savings_py (PyFloat original_cost) (PyFloat optimized_cost) =
     Inr \<lparr>absolute_py = PyFloat (original_cost - optimized_cost),
          percentage_py = (if original_cost > 0
             then PyFloat ((original_cost - optimized_cost) / original_cost * 100)
             else PyInt 0)\<rparr>"
  by (simp add: calculate_savings_py_def truediv_def and_then_def)

lemma calculate_cost_py_int:
  "(\<exists>r. calculate_cost_py (PyInt i) (PyInt ot) (PyInt ct) provider model = Inr r) \<longleftrightarrow>
     \<bar>of_int (i - ct) / 1000000\<bar> < float_limit \<and>
     \<bar>of_int ct / 1000000\<bar> < float_limit \<and>
     \<bar>of_int ot / 1000000\<bar> < float_limit"
proof -
  obtain models pricing a b c where r: "PRICING ''groq'' = Some models"
    "models (if models model = None then ''llama-3.1-70b-versatile'' else model) = Some pricing"
    "pricing ''input'' = Some a" "pricing ''output'' = Some b"
    "pricing ''cached_input'' = Some c"
    by (rule calculate_cost_resolved)
  show ?thesis
    unfolding calculate_cost_py_known [OF r]
    by (simp add: and_then_def not_le)
qed

lemma calculate_savings_py_int:
  "(\<exists>s. calculate_savings_py (PyInt original_cost) (PyInt optimized_cost) = Inr s) \<longleftrightarrow>
     (original_cost \<le> 0 \<or>
      \<bar>of_int (original_cost - optimized_cost) / of_int original_cost\<bar> < float_limit)"
  by (auto simp: calculate_savings_py_def and_then_def not_le)

lemma calculate_cost_py_int_eq:
  assumes "\<bar>of_int (i - ct) / 1000000\<bar> < float_limit"
    and "\<bar>of_int ct / 1000000\<bar> < float_limit"
    and "\<bar>of_int ot / 1000000\<bar> < float_limit"
  shows "calculate_cost_py (PyInt i) (PyInt ot) (PyInt ct) provider model =
           calculate_cost (of_int i) (of_int ot) (of_int ct) provider model"
proof -
  obtain models pricing a b c where r: "PRICING ''groq'' = Some models"
    "models (if models model = None then ''llama-3.1-70b-versatile'' else model) = Some pricing"
    "pricing ''input'' = Some a" "pricing ''output'' = Some b"
    "pricing ''cached_input'' = Some c"
    by (rule calculate_cost_resolved)
  from assms show ?thesis
    unfolding calculate_cost_py_known [OF r] calculate_cost_known [OF r]
    by (simp add: and_then_def not_le [symmetric])
qed

text \<open>
  Claim C9, as stated, has \<open>calculate_cost\<close> and \<open>calculate_savings\<close> return a
  number for all numeric arguments. With integer arguments the division is the true
  division of integers, which raises when its quotient is beyond the double range:
  10^315 input tokens make \<open>calculate_cost\<close> raise \<open>OverflowError\<close>, and so do the
  costs 1 and -(10^309) in \<open>calculate_savings\<close>.
\<close>

theorem core_overflow_counterexample:
  "calculate_cost_py (PyInt (10 ^ 315)) (PyInt 0) (PyInt 0) ''groq''
     ''llama-3.1-70b-versatile'' = Inl OverflowError \<and>
   calculate_savings_py (PyInt 1) (PyInt (- (10 ^ 309))) = Inl OverflowError"
  by (simp add: calculate_cost_py_def calculate_savings_py_def getitem_def PRICING_def
      and_then_def float_limit_def)

text \<open>
  Claim C9, amended. For all numeric arguments, integers or floats in any mixture, and for
  every provider string and model string, \<open>calculate_cost\<close> and
  \<open>calculate_savings\<close> never raise from a pricing lookup or from a zero divisor: each
  returns its numeric result or raises \<open>OverflowError\<close>. Both return for all float
  arguments. For integer arguments \<open>calculate_cost\<close> returns exactly when the three
  quotients it forms, of the non-cached, the cached and the output tokens by a million,
  are within the double range, and \<open>calculate_savings\<close> returns exactly when the
  original cost is not positive or the ratio it forms is within that range.
\<close>

theorem core_raises_overflow_only:
  "calculate_cost_py input_tokens output_tokens cached_tokens provider model \<noteq> Inl KeyError \<and>
   calculate_cost_py input_tokens output_tokens cached_tokens provider model
     \<noteq> Inl ZeroDivisionError \<and>
   calculate_savings_py original_cost optimized_cost \<noteq> Inl KeyError \<and>
   calculate_savings_py original_cost optimized_cost \<noteq> Inl ZeroDivisionError \<and>
   (\<exists>r. calculate_cost_py (PyFloat x) (PyFloat y) (PyFloat z) provider model = Inr r) \<and>
   (\<exists>s. calculate_savings_py (PyFloat u) (PyFloat v) = Inr s) \<and>
   ((\<exists>r. calculate_cost_py (PyInt i) (PyInt ot) (PyInt ct) provider model = Inr r) \<longleftrightarrow>
      \<bar>of_int (i - ct) / 1000000\<bar> < float_limit \<and>
      \<bar>of_int ct / 1000000\<bar> < float_limit \<and>
      \<bar>of_int ot / 1000000\<bar> < float_limit) \<and>
   ((\<exists>s. calculate_savings_py (PyInt a) (PyInt b) = Inr s) \<longleftrightarrow>
      (a \<le> 0 \<or> \<bar>of_int (a - b) / of_int a\<bar> < float_limit))"
proof -
  have "calculate_cost_py input_tokens output_tokens cached_tokens provider model \<noteq> Inl e"
    if "e \<noteq> OverflowError" for e
    using that calculate_cost_py_raises by blast
  moreover have "calculate_savings_py original_cost optimized_cost \<noteq> Inl e"
    if "e \<noteq> OverflowError" for e
    using that calculate_savings_py_raises by blast
  moreover obtain models pricing ra rb rc where r: "PRICING ''groq'' = Some models"
    "models (if models model = None then ''llama-3.1-70b-versatile'' else model) = Some pricing"
    "pricing ''input'' = Some ra" "pricing ''output'' = Some rb"
    "pricing ''cached_input'' = Some rc"
    by (rule calculate_cost_resolved)
  have "\<exists>r. calculate_cost_py (PyFloat x) (PyFloat y) (PyFloat z) provider model = Inr r"
    unfolding calculate_cost_py_float calculate_cost_known [OF r] by blast
  moreover have "\<exists>s. calculate_savings_py (PyFloat u) (PyFloat v) = Inr s"
    unfolding calculate_savings_py_float by blast
  ultimately show ?thesis
    using calculate_cost_py_int [of i ot ct provider model] calculate_savings_py_int [of a b]
    by (simp only: py_error.distinct simp_thms)
qed

theorem core_raises_overflow_only_witness:
  "calculate_cost_py (PyInt 5000) (PyFloat 200) (PyInt 4498) ''groq'' ''nonexistent-model''
     \<noteq> Inl KeyError \<and>
   calculate_savings_py (PyInt 0) (PyFloat 5) \<noteq> Inl ZeroDivisionError \<and>
   (\<exists>r. calculate_cost_py (PyInt 5000) (PyInt 200) (PyInt 4498) ''groq''
          ''nonexistent-model'' = Inr r) \<and>
   (\<exists>s. calculate_savings_py (PyInt 0) (PyInt 5) = Inr s) \<and>
   (\<exists>s. calculate_savings_py (PyInt 2430) (PyInt 46) = Inr s) \<and>
   \<not> (\<exists>s. calculate_savings_py (PyInt 1) (PyInt (- (10 ^ 309))) = Inr s)"
  using
    core_raises_overflow_only [of "PyInt 5000" "PyFloat 200" "PyInt 4498" "''groq''"
      "''nonexistent-model''" "PyInt 0" "PyFloat 5" 0 0 0 0 0 5000 200 4498 0 5]
    core_raises_overflow_only [of "PyInt 5000" "PyFloat 200" "PyInt 4498" "''groq''"
      "''nonexistent-model''" "PyInt 0" "PyFloat 5" 0 0 0 0 0 5000 200 4498 2430 46]
    core_raises_overflow_only [of "PyInt 5000" "PyFloat 200" "PyInt 4498" "''groq''"
      "''nonexistent-model''" "PyInt 0" "PyFloat 5" 0 0 0 0 0 5000 200 4498 1 "- (10 ^ 309)"]
  by (simp add: float_limit_def)

section \<open>The projection\<close>

text \<open>
  \<open>project_monthly_cost\<close> has no number of questions among its parameters and is not
  called by the application; the projection the user sees is the one of the fourth tab.
  Like the accountant it always returns.
\<close>

lemma project_monthly_cost_returns:
  "\<exists>p. project_monthly_cost daily_users tokens_per_user days_per_month provider model
          use_caching cache_hit_rate = Inr p"
proof -
  obtain models pricing a b c where r: "PRICING ''groq'' = Some models"
    "models (if models model = None then ''llama-3.1-70b-versatile'' else model) = Some pricing"
    "pricing ''input'' = Some a" "pricing ''output'' = Some b"
    "pricing ''cached_input'' = Some c"
    by (rule calculate_cost_resolved)
  show ?thesis
    unfolding project_monthly_cost_def Let_def calculate_cost_known [OF r]
    by (simp add: and_then_def)
qed

lemma calculate_projections_eq:
  "\<exists>r. calculate_projections du doc q days ip op cp = Inr r \<and>
     cost_without_opt r = of_int (du * days * (doc * q)) / 1000000 * ip \<and>
     cost_with_opt r =
       of_int (du * days) * (of_int doc + of_int doc * 0.1 * of_int (q - 1)) / 1000000 * cp \<and>
     monthly_savings r = cost_without_opt r - cost_with_opt r \<and>
     annual_savings r = monthly_savings r * 12 \<and>
     savings_pct r =
       (if cost_without_opt r > 0 then monthly_savings r / cost_without_opt r * 100 else 0)"
  by (simp add: calculate_projections_def truediv_def and_then_def Let_def)

text \<open>
  Claim C2. The optimized monthly cost of the projection is the number of sessions, times
  the tokens of a session (the document once, and a tenth of the document for each further
  question), per million, at the cached rate.
\<close>

theorem optimized_cost_formula:
  "\<exists>r. calculate_projections daily_users avg_document_tokens avg_questions_per_user
          days_per_month input_rate output_rate cached_rate = Inr r \<and>
     cost_with_opt r =
       of_int (daily_users * days_per_month)
         * (of_int avg_document_tokens
             + 0.1 * of_int avg_document_tokens * (of_int avg_questions_per_user - 1))
         / 1000000 * cached_rate"
proof -
  obtain r where r: "calculate_projections daily_users avg_document_tokens
      avg_questions_per_user days_per_month input_rate output_rate cached_rate = Inr r"
    and c: "cost_with_opt r =
       of_int (daily_users * days_per_month)
         * (of_int avg_document_tokens
             + of_int avg_document_tokens * 0.1 * of_int (avg_questions_per_user - 1))
         / 1000000 * cached_rate"
    using calculate_projections_eq by blast
  from c have "cost_with_opt r =
       of_int (daily_users * days_per_month)
         * (of_int avg_document_tokens
             + 0.1 * of_int avg_document_tokens * (of_int avg_questions_per_user - 1))
         / 1000000 * cached_rate"
    by (simp add: mult.commute)
  with r show ?thesis by blast
qed

theorem optimized_cost_formula_witness:
  "map_sum id cost_with_opt (calculate_projections 1000 30000 10 30 0.27 0.27 0.027)
     = Inr 46.17"
  using optimized_cost_formula [of 1000 30000 10 30 "0.27" "0.27" "0.027"] by auto

text \<open>
  Claim C3, as stated, gives the baseline of the scenario (1000 users, documents of 30000
  tokens, 10 questions, 30 days, input rate 0.27) as 24,300,000 dollars. The projection
  returns 2430, which is also the value of the expression the claim writes out.
\<close>

theorem scenario_baseline_counterexample:
  "map_sum id cost_without_opt (calculate_projections 1000 30000 10 30 0.27 0.27 0.027)
     = Inr 2430 \<and>
   map_sum id cost_without_opt (calculate_projections 1000 30000 10 30 0.27 0.27 0.027)
     \<noteq> Inr 24300000 \<and>
   (1000 * 30 * 30000 * 10 / 1000000 * 0.27 :: real) \<noteq> 24300000"
  by (simp add: calculate_projections_def truediv_def and_then_def Let_def)

text \<open>
  Claim C3, amended. In that scenario the baseline monthly cost is 2430 dollars, which is
  1000 * 30 * 30000 * 10 tokens per million at the input rate 0.27 and is what
  \<open>calculate_cost\<close> charges for that many input tokens with no output and no cached
  tokens; the optimized cost, 46.17, is strictly less; and the savings percentage lies
  above 0 and is at most 100.
\<close>

theorem scenario_end_to_end:
  "calculate_projections 1000 30000 10 30 0.27 0.27 0.027 =
     Inr \<lparr>cost_without_opt = 2430, cost_with_opt = 46.17, monthly_savings = 2383.83,
          annual_savings = 28605.96, savings_pct = 238383 / 2430\<rparr> \<and>
   (2430 :: real) = 1000 * 30 * 30000 * 10 / 1000000 * 0.27 \<and>
   calculate_cost (1000 * 30 * 30000 * 10) 0 0 ''groq'' ''llama-3.1-70b-versatile'' = Inr 2430 \<and>
   (46.17 :: real) < 2430 \<and>
   (0 :: real) < 238383 / 2430 \<and> (238383 / 2430 :: real) \<le> 100"
  by (simp add: calculate_projections_def truediv_def and_then_def Let_def
      calculate_cost_def getitem_def PRICING_def)

section \<open>Savings\<close>




section \<open>The pricing invariant\<close>

text \<open>
  Claim C7. In every entry of the pricing table, for every provider and model, the cached
  rate is at most the input rate; hence a token count that is not negative costs no more at
  the cached rate than at the input rate, also as \<open>calculate_cost\<close> prices it (all of
  the tokens cached against none of them cached).
\<close>

theorem cached_rate_at_most_input_rate:
  assumes "PRICING provider = Some models" and "models model = Some pricing"
  shows "\<exists>input_rate cached_rate.
           pricing ''input'' = Some input_rate \<and>
           pricing ''cached_input'' = Some cached_rate \<and>
           cached_rate \<le> input_rate \<and>
           (0 \<le> n \<longrightarrow>
              n / 1000000 * cached_rate \<le> n / 1000000 * input_rate \<and>
              (\<exists>all_cached none_cached.
                 calculate_cost n 0 n provider model = Inr all_cached \<and>
                 calculate_cost n 0 0 provider model = Inr none_cached \<and>
                 all_cached \<le> none_cached))"
proof -
  from assms(1) have g: "PRICING ''groq'' = Some models"
    using only_groq by blast
  from groq_models [OF g assms(2)] obtain a b c where
    e: "pricing ''input'' = Some a" "pricing ''output'' = Some b"
      "pricing ''cached_input'' = Some c" and rates: "0 \<le> c" "c \<le> a" "0 \<le> b"
    by blast
  from assms(2) have m: "models (if models model = None
      then ''llama-3.1-70b-versatile'' else model) = Some pricing"
    by simp
  have le: "n / 1000000 * c \<le> n / 1000000 * a" if "0 \<le> n"
    using that rates by (simp add: mult_left_mono)
  have c1: "calculate_cost n 0 n provider model = Inr (n / 1000000 * c)"
    using calculate_cost_known [OF g m e, of n 0 n provider] by simp
  have c2: "calculate_cost n 0 0 provider model = Inr (n / 1000000 * a)"
    using calculate_cost_known [OF g m e, of n 0 0 provider] by simp
  have "\<exists>all_cached none_cached.
      calculate_cost n 0 n provider model = Inr all_cached \<and>
      calculate_cost n 0 0 provider model = Inr none_cached \<and>
      all_cached \<le> none_cached" if "0 \<le> n"
    using c1 c2 le [OF that] by blast
  with e rates le show ?thesis by blast
qed

theorem cached_rate_at_most_input_rate_witness:
  "\<exists>models pricing. PRICING ''groq'' = Some models \<and>
     models ''mixtral-8x7b-32768'' = Some pricing \<and>
     pricing ''input'' = Some 0.24 \<and> pricing ''cached_input'' = Some 0.024 \<and>
     calculate_cost 1000000 0 1000000 ''groq'' ''mixtral-8x7b-32768'' = Inr 0.024 \<and>
     calculate_cost 1000000 0 0 ''groq'' ''mixtral-8x7b-32768'' = Inr 0.24"
proof -
  obtain models where m: "PRICING ''groq'' = Some models"
    and "models ''llama-3.1-70b-versatile'' \<noteq> None"
    by (rule groq_present)
  from m obtain pricing where p: "models ''mixtral-8x7b-32768'' = Some pricing"
    and i: "pricing ''input'' = Some 0.24" and c: "pricing ''cached_input'' = Some 0.024"
    and o: "pricing ''output'' = Some 0.24"
    by (auto simp: PRICING_def)
  from p have p': "models (if models ''mixtral-8x7b-32768'' = None
      then ''llama-3.1-70b-versatile'' else ''mixtral-8x7b-32768'') = Some pricing"
    by simp
  from cached_rate_at_most_input_rate [OF m p, of 1000000] i c
  have "\<exists>x y. calculate_cost 1000000 0 1000000 ''groq'' ''mixtral-8x7b-32768'' = Inr x \<and>
     calculate_cost 1000000 0 0 ''groq'' ''mixtral-8x7b-32768'' = Inr y \<and> x \<le> y"
    by auto
  with m p i c calculate_cost_known [OF m p' i o c, of 1000000 0 1000000 "''groq''"]
    calculate_cost_known [OF m p' i o c, of 1000000 0 0 "''groq''"]
  show ?thesis by auto
qed

section \<open>The cache estimate\<close>

lemma simulate_response_tokens:
  "input_n (tokens (simulate_response document question is_first_request)) =
     500 + int (length document) div 4 + int (length question) div 4"
  "cached_n (tokens (simulate_response document question is_first_request)) =
     (if is_first_request then 0
      else int_trunc (of_int (500 + int (length document) div 4) * 0.9))"
  "cached_tokens_n (cache_info (simulate_response document question is_first_request)) =
     cached_n (tokens (simulate_response document question is_first_request))"
  by (simp_all add: simulate_response_def Let_def)

lemma analyze_groq_caching_returned:
  "input_n (tokens (analyze_groq_caching (Some (Returned i ot text)) document question
      system_prompt model enable_caching is_first_request)) = i"
  "cached_n (tokens (analyze_groq_caching (Some (Returned i ot text)) document question
      system_prompt model enable_caching is_first_request)) =
     (if \<not> is_first_request \<and> enable_caching
      then int_trunc (of_int (i - int (length question) div 4) * 0.9) else 0)"
  "cached_tokens_n (cache_info (analyze_groq_caching (Some (Returned i ot text)) document
      question system_prompt model enable_caching is_first_request)) =
   cached_n (tokens (analyze_groq_caching (Some (Returned i ot text)) document question
      system_prompt model enable_caching is_first_request))"
  by (simp_all add: analyze_groq_caching_def Let_def)

lemma analyze_groq_caching_simulated:
  "groq_client = None \<or> groq_client = Some Raised \<Longrightarrow>
   analyze_groq_caching groq_client document question system_prompt model enable_caching
      is_first_request = simulate_response document question is_first_request"
  by (auto simp: analyze_groq_caching_def)

lemma cached_estimate:
  assumes r_def: "r = analyze_groq_caching groq_client document question system_prompt model
      enable_caching is_first_request"
  shows "cached_tokens_n (cache_info r) = cached_n (tokens r)"
    and "is_first_request \<Longrightarrow> cached_n (tokens r) = 0"
    and "\<not> is_first_request \<Longrightarrow> enable_caching \<Longrightarrow>
      cached_n (tokens r) =
        int_trunc (0.9 * of_int (input_n (tokens r) - int (length question) div 4))"
proof -
  consider (sim) "groq_client = None \<or> groq_client = Some Raised"
    | (api) i ot body where "groq_client = Some (Returned i ot body)"
  proof (cases groq_client)
    case None
    then show ?thesis using sim by simp
  next
    case (Some a)
    then show ?thesis using sim api by (cases a) simp_all
  qed
  note cases = this
  show "cached_tokens_n (cache_info r) = cached_n (tokens r)"
    using cases
    by cases (simp_all add: r_def analyze_groq_caching_simulated simulate_response_tokens
        analyze_groq_caching_returned)
  show "cached_n (tokens r) = 0" if "is_first_request"
    using cases that
    by cases (simp_all add: r_def analyze_groq_caching_simulated simulate_response_tokens
        analyze_groq_caching_returned)
  show "cached_n (tokens r) =
        int_trunc (0.9 * of_int (input_n (tokens r) - int (length question) div 4))"
    if "\<not> is_first_request" "enable_caching"
    using cases that
    by cases (simp_all add: r_def analyze_groq_caching_simulated simulate_response_tokens
        analyze_groq_caching_returned mult.commute)
qed

lemma int_trunc_example: "int_trunc (0.9 * of_int (5000 - 2)) = 4498"
  by (simp add: int_trunc_def)

text \<open>
  Claim C6. Whatever the call to the provider does, the response of a first request reports
  no cached tokens; the response of a later request with caching enabled reports as cached
  nine tenths of the input tokens less the estimated question tokens (the length of the
  question divided by 4, rounded down), truncated to an integer. With 5000 input tokens
  and a question estimated at 2 tokens that is 4498.
\<close>

theorem cached_tokens_heuristic:
  assumes r_def: "r = analyze_with_caching groq_client document question provider model
      enable_caching is_first_request"
  shows "(is_first_request \<longrightarrow> cached_n (tokens r) = 0 \<and> cached_tokens_n (cache_info r) = 0) \<and>
     (\<not> is_first_request \<and> enable_caching \<longrightarrow>
        cached_n (tokens r) =
          int_trunc (0.9 * of_int (input_n (tokens r) - int (length question) div 4)) \<and>
        cached_tokens_n (cache_info r) = cached_n (tokens r)) \<and>
     (\<not> is_first_request \<and> enable_caching \<and> input_n (tokens r) = 5000 \<and>
        int (length question) div 4 = 2 \<longrightarrow> cached_n (tokens r) = 4498)"
proof -
  have r: "r = analyze_groq_caching groq_client document question get_system_prompt model
      enable_caching is_first_request"
    by (simp add: r_def analyze_with_caching_def)
  note est = cached_estimate [OF r]
  have "cached_n (tokens r) = 4498"
    if "\<not> is_first_request" "enable_caching" "input_n (tokens r) = 5000"
      "int (length question) div 4 = 2"
    using est(3) [OF that(1,2)] that(3,4) int_trunc_example by simp
  with est show ?thesis by simp
qed

theorem cached_tokens_heuristic_witness:
  "cached_n (tokens (analyze_with_caching (Some (Returned 5000 200 ''ok'')) ''doc''
      ''What is X?'' ''Groq'' ''llama-3.1-8b-instant'' True True)) = 0 \<and>
   cached_n (tokens (analyze_with_caching None ''doc'' ''What is X?'' ''Groq''
      ''llama-3.1-8b-instant'' True True)) = 0 \<and>
   input_n (tokens (analyze_with_caching (Some (Returned 5000 200 ''ok'')) ''doc''
      ''What is X?'' ''Groq'' ''llama-3.1-8b-instant'' True False)) = 5000 \<and>
   int (length ''What is X?'') div 4 = 2 \<and>
   cached_n (tokens (analyze_with_caching (Some (Returned 5000 200 ''ok'')) ''doc''
      ''What is X?'' ''Groq'' ''llama-3.1-8b-instant'' True False)) = 4498"
  using
    cached_tokens_heuristic [OF refl, of True "Some (Returned 5000 200 ''ok'')" "''doc''"
      "''What is X?''" "''Groq''" "''llama-3.1-8b-instant''" True]
    cached_tokens_heuristic [OF refl, of True None "''doc''"
      "''What is X?''" "''Groq''" "''llama-3.1-8b-instant''" True]
    cached_tokens_heuristic [OF refl, of False "Some (Returned 5000 200 ''ok'')" "''doc''"
      "''What is X?''" "''Groq''" "''llama-3.1-8b-instant''" True]
  by (simp add: analyze_with_caching_def analyze_groq_caching_returned)

section \<open>One more question per user\<close>

lemma per_million_le: "0 \<le> (y::real) \<Longrightarrow> y / 1000000 \<le> y"
  by simp

text \<open>
  Claim C8, as stated, bounds the cost of one more question per user by a tenth of the
  document at the input rate over all sessions, for every scenario. The two prices are
  separate inputs of the form, each with minimum 0.0, so the cached price may exceed the
  input price: with an input price of 0 and a cached price of 0.027 the bound is 0 and the
  optimized cost rises by 2.43.
\<close>

theorem marginal_question_counterexample:
  "map_sum id cost_with_opt (calculate_projections 1000 30000 10 30 0 0.27 0.027) = Inr 46.17 \<and>
   map_sum id cost_with_opt (calculate_projections 1000 30000 11 30 0 0.27 0.027) = Inr 48.6 \<and>
   \<not> (cost_with_opt (projr (calculate_projections 1000 30000 11 30 0 0.27 0.027))
        - cost_with_opt (projr (calculate_projections 1000 30000 10 30 0 0.27 0.027))
      \<le> 0.1 * 0 * of_int (1000 * 30) * of_int 30000) \<and>
   \<not> (cost_with_opt (projr (calculate_projections 1000 30000 11 30 0 0.27 0.027))
        - cost_with_opt (projr (calculate_projections 1000 30000 10 30 0 0.27 0.027))
      \<le> of_int (1000 * 30) * (0.1 * of_int 30000) / 1000000 * 0)"
  by (simp add: calculate_projections_def truediv_def and_then_def Let_def)

text \<open>
  Claim C8, amended. For usage figures above 0, an input rate that is not negative and a
  cached rate that is at most the input rate (as in every entry of the pricing table), one
  more question per user raises the optimized cost by exactly a tenth of the document, over
  all sessions, per million, at the cached rate; that is at most the cost of those tokens at
  the input rate, and so at most 0.1 * inputRate * totalSessions * avgDocumentTokens.
\<close>

theorem marginal_question_cost:
  assumes "0 < daily_users" and "0 < avg_document_tokens" and "0 < avg_questions_per_user"
    and "0 < days_per_month"
    and "0 \<le> input_rate" and "cached_rate \<le> input_rate"
  shows "\<exists>r r'.
     calculate_projections daily_users avg_document_tokens avg_questions_per_user
       days_per_month input_rate output_rate cached_rate = Inr r \<and>
     calculate_projections daily_users avg_document_tokens (avg_questions_per_user + 1)
       days_per_month input_rate output_rate cached_rate = Inr r' \<and>
     cost_with_opt r' - cost_with_opt r =
       of_int (daily_users * days_per_month) * (0.1 * of_int avg_document_tokens)
         / 1000000 * cached_rate \<and>
     cost_with_opt r' - cost_with_opt r \<le>
       of_int (daily_users * days_per_month) * (0.1 * of_int avg_document_tokens)
         / 1000000 * input_rate \<and>
     cost_with_opt r' - cost_with_opt r \<le>
       0.1 * input_rate * of_int (daily_users * days_per_month) * of_int avg_document_tokens"
proof -
  let ?S = "of_int (daily_users * days_per_month) :: real"
  let ?D = "of_int avg_document_tokens :: real"
  obtain r where r: "calculate_projections daily_users avg_document_tokens
      avg_questions_per_user days_per_month input_rate output_rate cached_rate = Inr r"
    and c: "cost_with_opt r =
      ?S * (?D + ?D * 0.1 * of_int (avg_questions_per_user - 1)) / 1000000 * cached_rate"
    using calculate_projections_eq by blast
  obtain r' where r': "calculate_projections daily_users avg_document_tokens
      (avg_questions_per_user + 1) days_per_month input_rate output_rate cached_rate = Inr r'"
    and c': "cost_with_opt r' =
      ?S * (?D + ?D * 0.1 * of_int (avg_questions_per_user + 1 - 1)) / 1000000 * cached_rate"
    using calculate_projections_eq by blast
  have S: "0 \<le> ?S" using assms(1,4) by simp
  have D: "0 \<le> ?D" using assms(2) by simp
  have T: "0 \<le> ?S * (0.1 * ?D) / 1000000" using S D by simp
  let ?X = "?D + ?D * 0.1 * of_int (avg_questions_per_user - 1)"
  let ?X' = "?D + ?D * 0.1 * of_int (avg_questions_per_user + 1 - 1)"
  have e: "?X' - ?X = 0.1 * ?D" by (simp add: right_diff_distrib)
  have "cost_with_opt r' - cost_with_opt r = ?S * (?X' - ?X) / 1000000 * cached_rate"
    unfolding c c' by (simp only: right_diff_distrib left_diff_distrib diff_divide_distrib)
  then have d: "cost_with_opt r' - cost_with_opt r = ?S * (0.1 * ?D) / 1000000 * cached_rate"
    by (simp only: e)
  have b1: "?S * (0.1 * ?D) / 1000000 * cached_rate \<le> ?S * (0.1 * ?D) / 1000000 * input_rate"
    using T assms(6) by (rule mult_left_mono [rotated])
  have b2: "?S * (0.1 * ?D) / 1000000 * input_rate \<le> 0.1 * input_rate * ?S * ?D"
  proof -
    have "0 \<le> ?S * (0.1 * ?D) * input_rate"
      using S D assms(5) by (intro mult_nonneg_nonneg) simp_all
    then have "?S * (0.1 * ?D) * input_rate / 1000000 \<le> ?S * (0.1 * ?D) * input_rate"
      by (rule per_million_le)
    moreover have "?S * (0.1 * ?D) / 1000000 * input_rate
        = ?S * (0.1 * ?D) * input_rate / 1000000"
      by simp
    moreover have "?S * (0.1 * ?D) * input_rate = 0.1 * input_rate * ?S * ?D"
      by (simp only: mult_ac)
    ultimately show ?thesis by (simp only:)
  qed
  from r r' d b1 b2 show ?thesis by (intro exI [of _ r] exI [of _ r']) linarith
qed

theorem marginal_question_cost_witness:
  "map_sum id cost_with_opt (calculate_projections 1000 30000 11 30 0.27 0.27 0.027) = Inr 48.6 \<and>
   map_sum id cost_with_opt (calculate_projections 1000 30000 10 30 0.27 0.27 0.027) = Inr 46.17 \<and>
   (48.6 - 46.17 :: real) \<le> of_int (1000 * 30) * (0.1 * of_int 30000) / 1000000 * 0.27"
  using marginal_question_cost [of 1000 30000 10 30 "0.27" "0.027" "0.27"]
  by (auto simp: calculate_projections_def truediv_def and_then_def Let_def)

end
